theory Spec2Isabelle
  imports Main
begin

section \<open>Python strings and dictionaries\<close>

text \<open>
  The importer works on Python text strings. A string is modelled as a list of
  characters (\<^typ>\<open>string\<close>), one \<^typ>\<open>char\<close> per code point, restricted to the
  code points below 256. A \<open>dict\<close> is an association list in insertion
  order, which is the order Python iterates it in.
\<close>

definition nl :: char where
  "nl = CHR 0x0A"

definition startswith :: "string \<Rightarrow> string \<Rightarrow> bool" where
  \<comment> \<open>\<open>s.startswith(p)\<close>\<close>
  "startswith s p = (take (length p) s = p)"

definition is_space :: "char \<Rightarrow> bool" where
  \<comment> \<open>\<open>str.isspace\<close> on the code points below 256: TAB, LF, VT, FF, CR,
      FS, GS, RS, US, SPACE, NEL and NBSP\<close>
  "is_space c = ((of_char c :: nat) \<in> {9, 10, 11, 12, 13, 28, 29, 30, 31, 32, 133, 160})"

definition lstrip_chars :: "char set \<Rightarrow> string \<Rightarrow> string" where
  \<comment> \<open>\<open>s.lstrip(chars)\<close>: drops leading characters that are members of \<open>chars\<close>\<close>
  "lstrip_chars cs s = dropWhile (\<lambda>c. c \<in> cs) s"

definition rstrip_chars :: "char set \<Rightarrow> string \<Rightarrow> string" where
  "rstrip_chars cs s = rev (dropWhile (\<lambda>c. c \<in> cs) (rev s))"

definition strip_chars :: "char set \<Rightarrow> string \<Rightarrow> string" where
  "strip_chars cs s = rstrip_chars cs (lstrip_chars cs s)"

definition strip :: "string \<Rightarrow> string" where
  \<comment> \<open>\<open>s.strip()\<close>: drops leading and trailing whitespace\<close>
  "strip s = rev (dropWhile is_space (rev (dropWhile is_space s)))"

function split_from :: "string \<Rightarrow> string \<Rightarrow> string \<Rightarrow> string list" where
  "split_from sep acc s =
     (if s = [] then [acc]
      else if sep \<noteq> [] \<and> startswith s sep
           then acc # split_from sep [] (drop (length sep) s)
           else split_from sep (acc @ [hd s]) (tl s))"
  by pat_completeness auto
termination
  by (relation "measure (\<lambda>(sep, acc, s). length s)") auto

declare split_from.simps [simp del]

definition split :: "string \<Rightarrow> string \<Rightarrow> string list" where
  \<comment> \<open>\<open>s.split(sep)\<close> for a non-empty separator: the pieces between the
      non-overlapping occurrences of \<open>sep\<close>, found from the left\<close>
  "split s sep = split_from sep [] s"

fun join :: "string \<Rightarrow> string list \<Rightarrow> string" where
  \<comment> \<open>\<open>sep.join(xs)\<close>\<close>
  "join sep [] = []"
| "join sep [x] = x"
| "join sep (x # y # ys) = x @ sep @ join sep (y # ys)"

type_synonym ('k, 'v) dict = "('k \<times> 'v) list"

fun dict_set :: "('k, 'v) dict \<Rightarrow> 'k \<Rightarrow> 'v \<Rightarrow> ('k, 'v) dict" where
  \<comment> \<open>\<open>d[k] = v\<close>: an existing key keeps its place, a new key goes last\<close>
  "dict_set [] k v = [(k, v)]"
| "dict_set ((k', v') # d) k v =
     (if k' = k then (k, v) # d else (k', v') # dict_set d k v)"

definition dict_get :: "('k, 'v) dict \<Rightarrow> 'k \<Rightarrow> 'v \<Rightarrow> 'v" where
  \<comment> \<open>\<open>d.get(k, default)\<close>\<close>
  "dict_get d k dflt = (case map_of d k of None \<Rightarrow> dflt | Some v \<Rightarrow> v)"

section \<open>The multi-language splitter\<close>

definition qt_start :: string where "qt_start = ''<!--:''"
definition qt_end :: string where "qt_end = ''-->''"
definition qt_end_with_lang_len :: nat where "qt_end_with_lang_len = 5"

text \<open>
  One round of the loop over the chunks in \<open>separate_qtranslate_content\<close>. The
  state is the pair of \<open>content_by_lang\<close> and \<open>common_txt_list\<close>.
\<close>

definition qt_chunk ::
  "string \<Rightarrow> (string, string list) dict \<times> string list \<Rightarrow> (string, string list) dict \<times> string list"
where
  "qt_chunk c0 st =
     (let (content_by_lang, common_txt_list) = st in
      if strip c0 = [] then st
      else
        let (skip, lang, c) =
              (if startswith c0 qt_end then
                 (let c1 = lstrip_chars (set qt_end) c0 in (c1 = [], [], c1))
               else if startswith (drop 2 c0) qt_end then
                 (False, take 2 c0, drop qt_end_with_lang_len c0)
               else (False, [], c0))
        in if skip then st
           else if lang = [] then
             (map (\<lambda>(l, xs). (l, xs @ [c])) content_by_lang, common_txt_list @ [c])
           else
             (dict_set content_by_lang lang (dict_get content_by_lang lang common_txt_list @ [c]),
              common_txt_list))"

definition separate_qtranslate_content :: "string \<Rightarrow> (string, string) dict" where
  "separate_qtranslate_content text =
     (let qt_chunks = split text qt_start;
          (content_by_lang, common_txt_list) = foldl (\<lambda>st c. qt_chunk c st) ([], []) qt_chunks;
          content_by_lang' =
            (if common_txt_list \<noteq> [] \<and> content_by_lang = []
             then dict_set content_by_lang [] common_txt_list else content_by_lang)
      in map (\<lambda>(l, xs). (l, join '' '' xs)) content_by_lang')"

section \<open>Regular expressions\<close>

text \<open>
  The fragment of Python's \<open>re\<close> that the importer's patterns use, with the
  backtracking order of the library: a pattern is a sequence of literals,
  repetitions of a character class (greedy or lazy, with a minimum count),
  group marks and optional sub-patterns. \<open>.\<close> is \<open>Rep Dot_all\<close> under
  \<open>re.DOTALL\<close> and \<open>Rep Dot\<close> otherwise.
\<close>

datatype char_class = Dot_all | Dot | Ch char

fun in_class :: "char_class \<Rightarrow> char \<Rightarrow> bool" where
  "in_class Dot_all c = True"
| "in_class Dot c = (c \<noteq> nl)"
| "in_class (Ch d) c = (c = d)"

datatype rx =
    Lit string
  | Rep char_class nat bool    \<comment> \<open>class, minimum count, greedy\<close>
  | Open_group nat
  | Close_group nat
  | Opt "rx list"

text \<open>
  The captures are the text left at the time each group opened and the text
  of each closed group (the latest first). A failed alternative drops its captures, as the
  library restores the marks when it backtracks.
\<close>

type_synonym captures = "(nat \<times> string) list \<times> (nat \<times> string) list"

function (sequential) rx_match :: "rx list \<Rightarrow> string \<Rightarrow> captures \<Rightarrow> (string \<times> captures) option" where
  "rx_match [] s caps = Some (s, caps)"
| "rx_match (Lit l # r) s caps =
     (if startswith s l then rx_match r (drop (length l) s) caps else None)"
| "rx_match (Open_group n # r) s (opens, groups) = rx_match r s ((n, s) # opens, groups)"
| "rx_match (Close_group n # r) s (opens, groups) =
     (let s0 = dict_get opens n s
      in rx_match r s (opens, (n, take (length s0 - length s) s0) # groups))"
| "rx_match (Opt xs # r) s caps =
     (case rx_match (xs @ r) s caps of
        Some m \<Rightarrow> Some m
      | None \<Rightarrow> rx_match r s caps)"
| "rx_match (Rep cls (Suc k) g # r) [] caps = None"
| "rx_match (Rep cls (Suc k) g # r) (c # cs) caps =
     (if in_class cls c then rx_match (Rep cls k g # r) cs caps else None)"
| "rx_match (Rep cls 0 True # r) [] caps = rx_match r [] caps"
| "rx_match (Rep cls 0 True # r) (c # cs) caps =
     (if in_class cls c then
        (case rx_match (Rep cls 0 True # r) cs caps of
           Some m \<Rightarrow> Some m
         | None \<Rightarrow> rx_match r (c # cs) caps)
      else rx_match r (c # cs) caps)"
| "rx_match (Rep cls 0 False # r) [] caps = rx_match r [] caps"
| "rx_match (Rep cls 0 False # r) (c # cs) caps =
     (case rx_match r (c # cs) caps of
        Some m \<Rightarrow> Some m
      | None \<Rightarrow> (if in_class cls c then rx_match (Rep cls 0 False # r) cs caps else None))"
  by pat_completeness auto
termination
  by (relation "measures [\<lambda>(r, s, caps). length s, \<lambda>(r, s, caps). size_list size r]") auto

record match_obj =
  group0 :: string                     \<comment> \<open>\<open>m.group(0)\<close>, the text matched\<close>
  group_texts :: "(nat \<times> string) list"  \<comment> \<open>the groups that took part\<close>

definition group :: "match_obj \<Rightarrow> nat \<Rightarrow> string option" where
  \<comment> \<open>\<open>m.group(n)\<close>; \<open>None\<close> for a group that took no part in the match\<close>
  "group m n = map_of (group_texts m) n"

function re_sub :: "rx list \<Rightarrow> (match_obj \<Rightarrow> string) \<Rightarrow> string \<Rightarrow> string" where
  "re_sub pat repl s =
     (case rx_match pat s ([], []) of
        None \<Rightarrow> (case s of [] \<Rightarrow> [] | c # cs \<Rightarrow> c # re_sub pat repl cs)
      | Some (rest, caps) \<Rightarrow>
          repl \<lparr>group0 = take (length s - length rest) s, group_texts = snd caps\<rparr> @
          (if length rest < length s then re_sub pat repl rest
           else (case s of [] \<Rightarrow> [] | c # cs \<Rightarrow> c # re_sub pat repl cs)))"
  by pat_completeness auto
termination
  by (relation "measure (\<lambda>(pat, repl, s). length s)") auto

declare re_sub.simps [simp del]

text \<open>
  \<open>re.sub(pat, repl, s)\<close>: the leftmost match at each position is replaced and
  the scan goes on behind it. The last branch (a match of the empty string:
  the replacement, then one character copied) is never taken by the patterns
  of this module, which all hold a literal.
\<close>

function replace :: "string \<Rightarrow> string \<Rightarrow> string \<Rightarrow> string" where
  \<comment> \<open>\<open>s.replace(old, new)\<close> for a non-empty \<open>old\<close>\<close>
  "replace s old new =
     (if s = [] then []
      else if old \<noteq> [] \<and> startswith s old then new @ replace (drop (length old) s) old new
      else hd s # replace (tl s) old new)"
  by pat_completeness auto
termination
  by (relation "measure (\<lambda>(s, old, new). length s)") auto

declare replace.simps [simp del]

section \<open>The text transformers\<close>

definition code_re1 :: "rx list" where
  \<comment> \<open>\<open>\[code.* lang.*?="(.*?)?".*\](.*?)\[/code\]\<close>, DOTALL\<close>
  "code_re1 =
     [Lit ''[code'', Rep Dot_all 0 True, Lit '' lang'', Rep Dot_all 0 False, Lit [CHR ''='', CHR 0x22],
      Opt [Open_group 1, Rep Dot_all 0 False, Close_group 1], Lit [CHR 0x22],
      Rep Dot_all 0 True, Lit '']'',
      Open_group 2, Rep Dot_all 0 False, Close_group 2, Lit ''[/code]'']"

definition code_re2 :: "rx list" where
  \<comment> \<open>\<open>\[sourcecode.* lang.*?="(.*?)?".*\](.*?)\[/sourcecode\]\<close>, DOTALL\<close>
  "code_re2 =
     [Lit ''[sourcecode'', Rep Dot_all 0 True, Lit '' lang'', Rep Dot_all 0 False,
      Lit [CHR ''='', CHR 0x22],
      Opt [Open_group 1, Rep Dot_all 0 False, Close_group 1], Lit [CHR 0x22],
      Rep Dot_all 0 True, Lit '']'',
      Open_group 2, Rep Dot_all 0 False, Close_group 2, Lit ''[/sourcecode]'']"

definition code_re3 :: "rx list" where
  \<comment> \<open>\<open>\[code.*?\](.*?)\[/code\]\<close>, DOTALL\<close>
  "code_re3 =
     [Lit ''[code'', Rep Dot_all 0 False, Lit '']'',
      Open_group 1, Rep Dot_all 0 False, Close_group 1, Lit ''[/code]'']"

definition code_re4 :: "rx list" where
  \<comment> \<open>\<open>\[sourcecode.*?\](.*?)\[/sourcecode\]\<close>, DOTALL\<close>
  "code_re4 =
     [Lit ''[sourcecode'', Rep Dot_all 0 False, Lit '']'',
      Open_group 1, Rep Dot_all 0 False, Close_group 1, Lit ''[/sourcecode]'']"

fun rx_groups :: "rx \<Rightarrow> nat" where
  "rx_groups (Open_group n) = 1"
| "rx_groups (Opt xs) = sum_list (map rx_groups xs)"
| "rx_groups other = 0"

definition n_groups :: "rx list \<Rightarrow> nat" where
  \<comment> \<open>\<open>len(m.groups())\<close>: the number of groups of the pattern, matched or not\<close>
  "n_groups pat = sum_list (map rx_groups pat)"

definition replacement :: "nat \<Rightarrow> match_obj \<Rightarrow> string" where
  \<comment> \<open>the inner function of \<open>transform_code\<close>; its first argument is
      \<open>len(m.groups())\<close>. Group 2 is part of every match of the two patterns
      that have it.\<close>
  "replacement ngroups m =
     (let (language, code) =
            (if ngroups = 1 then ([], group0 m)
             else (case group m 1 of None \<Rightarrow> [] | Some l \<Rightarrow> l,
                   case group m 2 of None \<Rightarrow> [] | Some c \<Rightarrow> c));
          code = replace code ''&amp;'' ''&'';
          code = replace code ''&gt;'' ''>'';
          code = replace code ''&lt;'' ''<'';
          code = replace code ''&quot;'' [CHR 0x22]
      in ''```'' @ language @ [nl] @ code @ [nl] @ ''```'')"

definition transform_code :: "string \<Rightarrow> string" where
  "transform_code content =
     (let content = re_sub code_re1 (replacement (n_groups code_re1)) content;
          content = re_sub code_re2 (replacement (n_groups code_re2)) content;
          content = re_sub code_re3 (replacement (n_groups code_re3)) content;
          content = re_sub code_re4 (replacement (n_groups code_re4)) content
      in content)"

definition transform_caption :: "string \<Rightarrow> string" where
  \<comment> \<open>\<open>\[/caption\]\<close>, then \<open>\[caption.*\]\<close>; no DOTALL here\<close>
  "transform_caption content =
     (let new_caption = re_sub [Lit ''[/caption]''] (\<lambda>m. []) content;
          new_caption = re_sub [Lit ''[caption'', Rep Dot 0 True, Lit '']''] (\<lambda>m. []) new_caption
      in new_caption)"

definition transform_multiple_newlines :: "bool \<Rightarrow> string \<Rightarrow> string" where
  \<comment> \<open>the first argument is \<open>self.squash_newlines\<close>; the pattern is \<open>\n{3,}\<close>\<close>
  "transform_multiple_newlines squash_newlines content =
     (if squash_newlines then re_sub [Rep (Ch nl) 3 True] (\<lambda>m. [nl, nl]) content
      else content)"

definition transform_content :: "bool \<Rightarrow> string \<Rightarrow> string option \<Rightarrow> (string \<times> string) option" where
  \<comment> \<open>\<open>None\<close> is the source's \<open>return None\<close>; the post format is
      \<open>None\<close> when the item's metadata value has no text\<close>
  "transform_content squash_newlines content post_format =
     (if post_format = Some ''wp'' then
        (let content = transform_code content;
             content = transform_caption content;
             content = transform_multiple_newlines squash_newlines content
         in Some (content, ''md''))
      else if post_format = Some ''markdown'' then Some (content, ''md'')
      else if post_format = Some ''none'' then Some (content, ''html'')
      else None)"

section \<open>Library functions the importer calls\<close>

definition os_sep :: string where
  \<comment> \<open>\<open>os.sep\<close> on a POSIX system\<close>
  "os_sep = ''/''"

definition endswith :: "string \<Rightarrow> string \<Rightarrow> bool" where
  "endswith s p = startswith (rev s) (rev p)"

definition path_join2 :: "string \<Rightarrow> string \<Rightarrow> string" where
  \<comment> \<open>one round of the loop in \<open>posixpath.join\<close>\<close>
  "path_join2 path b =
     (if startswith b ''/'' then b
      else if path = [] \<or> endswith path ''/'' then path @ b
      else path @ ''/'' @ b)"

fun path_join :: "string list \<Rightarrow> string" where
  \<comment> \<open>\<open>os.path.join(*xs)\<close>; with no argument the call raises, and the
      importer always passes at least one\<close>
  "path_join [] = []"
| "path_join (a # p) = foldl path_join2 a p"


function replace_first :: "string \<Rightarrow> string \<Rightarrow> string \<Rightarrow> string" where
  \<comment> \<open>\<open>s.replace(old, new, 1)\<close>: only the first occurrence; an empty
      \<open>old\<close> occurs at the start\<close>
  "replace_first s old new =
     (if startswith s old then new @ drop (length old) s
      else if s = [] then []
      else hd s # replace_first (tl s) old new)"
  by pat_completeness auto
termination
  by (relation "measure (\<lambda>(s, old, new). length s)") auto

declare replace_first.simps [simp del]

function contains :: "string \<Rightarrow> string \<Rightarrow> bool" where
  \<comment> \<open>\<open>sub in s\<close>\<close>
  "contains s sub =
     (if startswith s sub then True
      else if s = [] then False
      else contains (tl s) sub)"
  by pat_completeness auto
termination
  by (relation "measure (\<lambda>(s, sub). length s)") auto

declare contains.simps [simp del]




record datetime =
  dt_year :: nat
  dt_month :: nat
  dt_day :: nat
  dt_hour :: nat
  dt_minute :: nat
  dt_second :: nat
  dt_tzinfo :: "string option"

definition digit_char :: "nat \<Rightarrow> char" where
  "digit_char n = ''0123456789'' ! (n mod 10)"

definition strftime :: "datetime \<Rightarrow> string" where
  \<comment> \<open>\<open>dt.strftime('%Y-%m-%d %H:%M:%S')\<close> for a year of four digits\<close>
  "strftime dt =
     (let d2 = (\<lambda>n. [digit_char (n div 10), digit_char n]);
          d4 = (\<lambda>n. [digit_char (n div 1000), digit_char (n div 100),
                       digit_char (n div 10), digit_char n])
      in d4 (dt_year dt) @ ''-'' @ d2 (dt_month dt) @ ''-'' @ d2 (dt_day dt) @ '' '' @
         d2 (dt_hour dt) @ '':'' @ d2 (dt_minute dt) @ '':'' @ d2 (dt_second dt))"

section \<open>The data of a run\<close>

text \<open>
  An item of the export, as the importer reads it. A field is \<open>None\<close> when the
  element is absent or has no text, which is when \<open>get_text_tag\<close> returns its
  default. Each \<open>postmeta\<close> element holds at most one \<open>meta_key\<close> and one
  \<open>meta_value\<close>; the value is \<open>None\<close> when the element is absent and
  \<open>Some None\<close> when it is there without text.
\<close>

record category_elem =
  cat_text :: "string option"      \<comment> \<open>\<open>tag.text\<close>\<close>
  cat_domain :: "string option"    \<comment> \<open>\<open>tag.attrib['domain']\<close>, when there\<close>

record postmeta =
  meta_key :: "string option"
  meta_value :: "string option option"

record item =
  it_title :: "string option"
  it_link :: "string option"
  it_description :: "string option"
  wp_post_name :: "string option"
  wp_post_id :: "string option"
  wp_post_parent :: "string option"
  wp_post_type :: "string option"
  wp_post_date :: "string option"
  wp_status :: "string option"
  wp_attachment_url :: "string option"
  wp_link :: "string option"
  content_encoded :: "string option"
  excerpt_encoded :: "string option"
  it_categories :: "category_elem list"
  it_postmeta :: "postmeta list"

definition get_text_tag :: "string option \<Rightarrow> string \<Rightarrow> string" where
  \<comment> \<open>\<open>get_text_tag(item, name, default)\<close> with a string default; with the
      default \<open>None\<close> the call returns the field as it is\<close>
  "get_text_tag field dflt = (case field of None \<Rightarrow> dflt | Some t \<Rightarrow> t)"

text \<open>The exceptions that leave the importer's functions.\<close>

datatype exn = TypeError | AttributeError | ValueError | OSError | RequestException

datatype log_event =
    Error_converting_post string
  | Error_malformed_date "string option" string string
  | Warn_trashed string
  | Notice_draft string
  | Notice_private string
  | Error_cannot_interpret string string "string option"
  | Warn_no_content string
  | Info_downloading string string
  | Warn_download_status string string nat
  | Warn_download_failed string string
  | Warn_no_parent int "string list"
  | Warn_attachments_without_post int "string list"
      \<comment> \<open>the two arguments of \<open>format\<close>; the call is on the second literal of
          the message only, so the logged text shows the list and not the id\<close>

datatype fs_event =
    Write_metadata string string string "string option" string "string option list"
                   "(string \<times> string) list"
      \<comment> \<open>path, title, slug, date, description, tags, other metadata\<close>
  | Write_content string string
  | Makedirs string
  | Write_download string string
  | Write_attachments_info string "(int, string list) dict"

datatype http_response =
    Connection_error      \<comment> \<open>\<open>requests.exceptions.ConnectionError\<close>, the one the source catches\<close>
  | Request_error         \<comment> \<open>any other exception of \<open>requests.get\<close>\<close>
  | Response nat string   \<comment> \<open>the status code and the content\<close>

datatype php_result = Php_value_error | Php_no_sizes | Php_sizes "string list"

text \<open>
  The collaborators that are not part of this module are parameters of the
  model: the URL parser and \<open>unquote\<close> of the standard library, the helpers of
  \<open>nikola.utils\<close>, the HTTP client and \<open>phpserialize\<close>.
\<close>

record env =
  urlparse_path :: "string \<Rightarrow> string"
  urlparse_query :: "string \<Rightarrow> string"
  unquote :: "string \<Rightarrow> string"
  slugify :: "string \<Rightarrow> string"
  to_datetime :: "string option \<Rightarrow> datetime option"   \<comment> \<open>\<open>None\<close>: ValueError\<close>
  get_tzname :: "datetime \<Rightarrow> string"
  get_translation_candidate :: "string \<Rightarrow> string \<Rightarrow> string"
  requests_get :: "string \<Rightarrow> http_response"
  makedirs :: "string \<Rightarrow> exn option"      \<comment> \<open>\<open>utils.makedirs\<close>; \<open>Some e\<close>: it raises\<close>
  open_write :: "string \<Rightarrow> exn option"    \<comment> \<open>opening a file for writing; \<open>Some e\<close>: it raises\<close>
  phpserialize_present :: bool
  phpserialize_sizes :: "string \<Rightarrow> php_result"
      \<comment> \<open>the file names under \<open>sizes\<close> of the unserialised value\<close>

record config =
  output_folder :: string
  exclude_drafts :: bool
  exclude_privates :: bool
  no_downloads :: bool
  import_empty_items :: bool
  squash_newlines :: bool
  separate_qtranslate :: bool
  site_url :: string          \<comment> \<open>\<open>context['SITE_URL']\<close>\<close>
  default_lang :: string      \<comment> \<open>\<open>context['DEFAULT_LANG']\<close>\<close>
  base_dir :: string

record state =
  url_map :: "(string, string) dict"
  links :: "(string, string) dict"      \<comment> \<open>the table of \<open>nikola.plugins.basic_import\<close>\<close>
  timezone :: "string option"
  all_tags :: "string option set"
  extra_languages :: "string set"
  posts_pages :: "(int, string \<times> string \<times> string) dict"
  attachments :: "(int, (int, string list) dict) dict"
  log :: "log_event list"
  fs :: "fs_event list"

definition logged :: "log_event \<Rightarrow> state \<Rightarrow> state" where
  "logged e st = st\<lparr>log := log st @ [e]\<rparr>"

definition emit :: "fs_event \<Rightarrow> state \<Rightarrow> state" where
  "emit e st = st\<lparr>fs := fs st @ [e]\<rparr>"

section \<open>Importing one post or page\<close>

definition item_slug :: "config \<Rightarrow> env \<Rightarrow> item \<Rightarrow> string \<Rightarrow> string \<Rightarrow> (string \<times> string) option" where
  \<comment> \<open>the output folder and the slug of an item with the link \<open>link\<close>;
      \<open>None\<close> where the source logs the conversion error and returns False.
      \<open>pathlist\<close> is never empty, \<open>split\<close> returns at least one piece.\<close>
  "item_slug cfg env it link out_folder =
     (let path = unquote env (strip_chars {CHR ''/''} (urlparse_path env link));
          base = strip_chars {CHR ''/''} (base_dir cfg);
          path = (if startswith path base then replace_first path base [] else path);
          pathlist = split path ''/''
      in if urlparse_query env link \<noteq> [] then
           (let out_folder = path_join ([out_folder] @ pathlist);
                slug = wp_post_name it;
                slug = (if slug = None \<or> slug = Some [] then wp_post_id it else slug)
            in case slug of
                 None \<Rightarrow> None
               | Some sl \<Rightarrow> if sl = [] then None else Some (out_folder, sl))
         else
           (let out_folder = (if length pathlist > 1
                              then path_join ([out_folder] @ butlast pathlist)
                              else out_folder)
            in Some (out_folder, slugify env (last pathlist))))"

definition epoch :: datetime where
  \<comment> \<open>\<open>datetime.datetime(1970, 1, 1, 0, 0, 0)\<close>\<close>
  "epoch = \<lparr>dt_year = 1970, dt_month = 1, dt_day = 1, dt_hour = 0, dt_minute = 0,
            dt_second = 0, dt_tzinfo = None\<rparr>"

definition parse_post_date ::
  "env \<Rightarrow> string \<Rightarrow> string \<Rightarrow> string option \<Rightarrow> state \<Rightarrow> datetime \<times> string option \<times> state"
where
  \<comment> \<open>the \<open>try\<close> around \<open>utils.to_datetime\<close>: the parsed date, the text
      recorded as the post date, and the state with what was logged\<close>
  "parse_post_date env title slug post_date st =
     (case to_datetime env post_date of
        Some dt \<Rightarrow> (dt, post_date, st)
      | None \<Rightarrow>
          (let dt = epoch
           in (dt, Some (strftime dt), logged (Error_malformed_date post_date title slug) st)))"

fun collect_categories ::
  "category_elem list \<Rightarrow> string option set \<times> string option list \<times> string list
     \<Rightarrow> string option set \<times> string option list \<times> string list"
where
  \<comment> \<open>the loop over \<open>item.findall('category')\<close>; the state is \<open>self.all_tags\<close>,
      \<open>tags\<close> and \<open>categories\<close>\<close>
  "collect_categories [] acc = acc"
| "collect_categories (tag # rest) (tagset, tags, categories) =
     (let text = cat_text tag;
          type = (case cat_domain tag of None \<Rightarrow> ''category'' | Some d \<Rightarrow> d)
      in if text = Some ''Uncategorized'' \<and> type = ''category''
         then collect_categories rest (tagset, tags, categories)
         else if type = ''category''
              then collect_categories rest (insert text tagset, tags, categories @ [type])
              else collect_categories rest (insert text tagset, tags @ [text], categories))"

definition find_post_format :: "item \<Rightarrow> exn + string option" where
  \<comment> \<open>the post format of the item's metadata; the value is read from the
      parent of the first matching key, and a parent without value element
      makes \<open>.text\<close> fail on \<open>None\<close>\<close>
  "find_post_format it =
     (case filter (\<lambda>x. meta_key x = Some ''_tc_post_format'') (it_postmeta it) of
        [] \<Rightarrow> Inr (Some ''wp'')
      | x # _ \<Rightarrow>
          (case meta_value x of
             None \<Rightarrow> Inl AttributeError
           | Some post_format \<Rightarrow>
               Inr (if post_format = Some ''wpautop'' then Some ''wp'' else post_format)))"

definition create_metadata ::
  "string \<Rightarrow> string option \<Rightarrow> string option list \<Rightarrow> string list
     \<Rightarrow> string option list \<times> (string \<times> string) list"
where
  "create_metadata status excerpt tags categories =
     (let other_meta = [(''wp-status'', status)];
          other_meta = (case excerpt of None \<Rightarrow> other_meta
                        | Some e \<Rightarrow> dict_set other_meta ''excerpt'' e)
      in (tags @ map Some categories, other_meta))"

record post =
  p_title :: string
  p_slug :: string
  p_out_folder :: string
  p_post_date :: "string option"
  p_description :: string
  p_status :: string
  p_excerpt :: "string option"
  p_categories :: "string list"
  p_post_format :: "string option"

fun write_translations ::
  "config \<Rightarrow> env \<Rightarrow> post \<Rightarrow> (string \<times> string) list \<Rightarrow> string option list \<Rightarrow> state
     \<Rightarrow> bool \<times> state"
where
  \<comment> \<open>the loop over \<open>content_translations.items()\<close>, with the local \<open>tags\<close>;
      False when the loop leaves the function by \<open>return False\<close>\<close>
  "write_translations cfg env p [] tags st = (True, st)"
| "write_translations cfg env p ((lang, content) # rest) tags st =
     (case transform_content (squash_newlines cfg) content (p_post_format p) of
        None \<Rightarrow>
          (False, logged (Error_cannot_interpret (path_join [p_out_folder p, p_slug p]) lang
                            (p_post_format p)) st)
      | Some (content, extension) \<Rightarrow>
          (let slug = p_slug p;
               out_meta_filename = slug @ ''.meta'';
               (out_content_filename, st) =
                 (if lang \<noteq> [] then
                    (if lang = default_lang cfg then (slug @ ''.'' @ extension, st)
                     else (get_translation_candidate env (slug @ ''.'' @ extension) lang,
                           st\<lparr>extra_languages := insert lang (extra_languages st)\<rparr>))
                  else (slug @ ''.'' @ extension, st));
               meta_slug = slug;
               (tags, other_meta) = create_metadata (p_status p) (p_excerpt p) tags (p_categories p);
               st = emit (Write_metadata
                            (path_join [output_folder cfg, p_out_folder p, out_meta_filename])
                            (p_title p) meta_slug (p_post_date p) (p_description p) tags other_meta) st;
               st = emit (Write_content
                            (path_join [output_folder cfg, p_out_folder p, out_content_filename])
                            content) st
           in write_translations cfg env p rest tags st))"

definition note_timezone :: "env \<Rightarrow> datetime \<Rightarrow> state \<Rightarrow> state" where
  \<comment> \<open>the time zone of the site is that of the first date that has one\<close>
  "note_timezone env dt st =
     (if dt_tzinfo dt \<noteq> None \<and> timezone st = None
      then st\<lparr>timezone := Some (get_tzname env dt)\<rparr> else st)"

definition status_tags :: "string \<Rightarrow> string option list \<times> bool \<times> bool" where
  \<comment> \<open>the branches on the status behind \<open>trash\<close>: the first tag,
      \<open>is_draft\<close> and \<open>is_private\<close>\<close>
  "status_tags status =
     (if status = ''private'' then ([Some ''private''], False, True)
      else if status \<noteq> ''publish'' then ([Some ''draft''], True, False)
      else ([], False, False))"

definition write_item ::
  "config \<Rightarrow> env \<Rightarrow> state \<Rightarrow> string \<Rightarrow> post \<Rightarrow> string \<Rightarrow> string option list \<Rightarrow> bool \<Rightarrow> bool
     \<Rightarrow> (string \<times> string) option \<times> state"
where
  \<comment> \<open>the last \<open>if\<close>/\<open>elif\<close> chain of \<open>import_item\<close>, on its local
      variables: the exclusion of drafts and private posts, the entry in the
      URL map, the files of each translation\<close>
  "write_item cfg env st link p content tags is_draft is_private =
     (if is_draft \<and> exclude_drafts cfg then (None, logged (Notice_draft (p_title p)) st)
      else if is_private \<and> exclude_privates cfg
           then (None, logged (Notice_private (p_title p)) st)
      else if strip content \<noteq> [] \<or> import_empty_items cfg then
        (let st = st\<lparr>url_map :=
                     dict_set (url_map st) link
                       (replace (site_url cfg @ rstrip_chars {CHR ''/''} (p_out_folder p)
                                   @ ''/'' @ p_slug p @ ''.html'') os_sep ''/'')\<rparr>;
             content_translations =
               (if separate_qtranslate cfg then separate_qtranslate_content content
                else [([], content)])
         in case write_translations cfg env p content_translations tags st of
              (False, st) \<Rightarrow> (None, st)
            | (True, st) \<Rightarrow> (Some (p_out_folder p, p_slug p), st))
      else (None, logged (Warn_no_content (p_title p)) st))"

definition import_item ::
  "config \<Rightarrow> env \<Rightarrow> state \<Rightarrow> item \<Rightarrow> string \<Rightarrow> exn + ((string \<times> string) option \<times> state)"
where
  \<comment> \<open>\<open>Inr (None, st)\<close> is the source's \<open>return False\<close>. A missing link makes
      \<open>urlparse\<close> return bytes, on which \<open>strip('/')\<close> raises TypeError.\<close>
  "import_item cfg env st it out_folder =
     (let title = get_text_tag (it_title it) ''NO TITLE'' in
      case it_link it of
        None \<Rightarrow> Inl TypeError
      | Some link \<Rightarrow>
      (case item_slug cfg env it link out_folder of
        None \<Rightarrow> Inr (None, logged (Error_converting_post title) st)
      | Some (out_folder, slug) \<Rightarrow>
      (let description = get_text_tag (it_description it) [];
           (dt, post_date, st) = parse_post_date env title slug (wp_post_date it) st;
           st = note_timezone env dt st;
           status = get_text_tag (wp_status it) ''publish'';
           content = get_text_tag (content_encoded it) [];
           excerpt = (if excerpt_encoded it = Some [] then None else excerpt_encoded it)
       in if status = ''trash'' then Inr (None, logged (Warn_trashed title) st)
          else
          (let (tags, is_draft, is_private) = status_tags status;
               (tagset, tags, categories) =
                 collect_categories (it_categories it) (all_tags st, tags, []);
               st = st\<lparr>all_tags := tagset\<rparr>;
               tags = (if contains content ''$latex'' then tags @ [Some ''mathjax''] else tags)
           in case find_post_format it of
                Inl e \<Rightarrow> Inl e
              | Inr post_format \<Rightarrow>
                  Inr (write_item cfg env st link
                         \<lparr>p_title = title, p_slug = slug, p_out_folder = out_folder,
                          p_post_date = post_date, p_description = description,
                          p_status = status, p_excerpt = excerpt,
                          p_categories = categories, p_post_format = post_format\<rparr>
                         content tags is_draft is_private)))))"

section \<open>Attachments and the run over all items\<close>














section \<open>Sample inputs\<close>

text \<open>
  Concrete collaborators, options and items on which the theorems below are
  evaluated. The sample URL parser cuts a URL of the form
  \<open>http://host/path?query\<close>; on the sample links it returns what
  \<open>urlparse\<close> returns, and the slugs of the sample links are left as they are
  by \<open>slugify\<close>. Opening a path that ends with a slash fails, as it names a
  directory, and the metadata text \<open>a:1:{sizes}\<close> stands for a serialised value
  with one size, the file \<open>a-150x150.png\<close>.
\<close>

definition url_rest :: "string \<Rightarrow> string" where
  "url_rest u = dropWhile (\<lambda>c. c \<noteq> CHR ''/'') (drop 7 u)"

definition sample_env :: env where
  "sample_env =
     \<lparr>urlparse_path = (\<lambda>u. takeWhile (\<lambda>c. c \<noteq> CHR ''?'') (url_rest u)),
      urlparse_query = (\<lambda>u. drop 1 (dropWhile (\<lambda>c. c \<noteq> CHR ''?'') (url_rest u))),
      unquote = (\<lambda>s. s),
      slugify = (\<lambda>s. s),
      to_datetime = (\<lambda>d. if d = Some ''2012-09-01 10:00:00''
                          then Some \<lparr>dt_year = 2012, dt_month = 9, dt_day = 1, dt_hour = 10,
                                     dt_minute = 0, dt_second = 0, dt_tzinfo = None\<rparr>
                          else None),
      get_tzname = (\<lambda>dt. ''UTC''),
      get_translation_candidate = (\<lambda>f lang. f @ ''.'' @ lang),
      requests_get = (\<lambda>u. Response 200 ''bytes''),
      makedirs = (\<lambda>p. None),
      open_write = (\<lambda>p. if endswith p ''/'' then Some OSError else None),
      phpserialize_present = True,
      phpserialize_sizes = (\<lambda>t. if t = ''a:1:{sizes}'' then Php_sizes [''a-150x150.png'']
                                 else Php_no_sizes)\<rparr>"

definition sample_config :: config where
  "sample_config =
     \<lparr>output_folder = ''new_site'', exclude_drafts = False, exclude_privates = False,
      no_downloads = False, import_empty_items = False, squash_newlines = False,
      separate_qtranslate = False, site_url = ''http://foo.com/'', default_lang = ''en'',
      base_dir = ''/''\<rparr>"

definition empty_state :: state where
  "empty_state =
     \<lparr>url_map = [], links = [], timezone = None, all_tags = {}, extra_languages = {},
      posts_pages = [], attachments = [], log = [], fs = []\<rparr>"

definition blank_item :: item where
  "blank_item =
     \<lparr>it_title = None, it_link = None, it_description = None, wp_post_name = None,
      wp_post_id = None, wp_post_parent = None, wp_post_type = None, wp_post_date = None,
      wp_status = None, wp_attachment_url = None, wp_link = None, content_encoded = None,
      excerpt_encoded = None, it_categories = [], it_postmeta = []\<rparr>"

definition hello_post :: item where
  "hello_post =
     blank_item\<lparr>it_title := Some ''Hello'',
       it_link := Some ''http://foo.com/2012/09/01/hello-world/'',
       wp_post_id := Some ''1'', wp_post_type := Some ''post'', wp_status := Some ''publish'',
       wp_post_date := Some ''2012-09-01 10:00:00'', content_encoded := Some ''Some text''\<rparr>"

definition textile_post :: item where
  \<comment> \<open>a post whose metadata declares a format the importer has no transform for\<close>
  "textile_post =
     hello_post\<lparr>it_postmeta :=
       [\<lparr>meta_key = Some ''_tc_post_format'', meta_value = Some (Some ''textile'')\<rparr>]\<rparr>"

definition undated_post :: item where
  \<comment> \<open>a post whose date is not one\<close>
  "undated_post = hello_post\<lparr>wp_post_date := Some ''not-a-date''\<rparr>"

definition orphan_attachment :: item where
  \<comment> \<open>an attachment with one more size, whose parent is the post 7, which the
      export does not have\<close>
  "orphan_attachment =
     blank_item\<lparr>wp_post_type := Some ''attachment'', wp_post_id := Some ''5'',
       wp_post_parent := Some ''7'',
       wp_attachment_url := Some ''http://foo.com/wp-content/uploads/a.png'',
       it_postmeta := [\<lparr>meta_key = Some ''_wp_attachment_metadata'',
                         meta_value = Some (Some ''a:1:{sizes}'')\<rparr>]\<rparr>"

definition parentless_attachment :: item where
  "parentless_attachment = orphan_attachment\<lparr>wp_post_parent := None\<rparr>"




section \<open>Predicates on events and states\<close>


definition new_fs :: "state \<Rightarrow> state \<Rightarrow> fs_event list" where
  "new_fs st st' = drop (length (fs st)) (fs st')"



definition is_sidecar :: "fs_event \<Rightarrow> bool" where
  "is_sidecar e = (case e of Write_attachments_info path atts \<Rightarrow> True | _ \<Rightarrow> False)"

definition sidecars :: "fs_event list \<Rightarrow> fs_event list" where
  \<comment> \<open>the attachment files among the events\<close>
  "sidecars es = filter is_sidecar es"

definition grows :: "state \<Rightarrow> state \<Rightarrow> bool" where
  "grows st st' =
     (take (length (fs st)) (fs st') = fs st \<and> take (length (log st)) (log st') = log st
      \<and> sidecars (new_fs st st') = []
      \<and> set (map fst (links st)) \<subseteq> set (map fst (links st'))
      \<and> set (map fst (attachments st)) \<subseteq> set (map fst (attachments st')))"














section \<open>The multi-language splitter: results\<close>

lemma split_from_no_sep:
  "\<forall>c\<in>set s. c \<noteq> hd sep \<Longrightarrow> split_from sep acc s = [acc @ s]"
proof (induction s arbitrary: acc)
  case Nil
  show ?case by (simp add: split_from.simps)
next
  case (Cons a s)
  have "\<not> (sep \<noteq> [] \<and> startswith (a # s) sep)"
    using Cons.prems by (cases sep) (auto simp: startswith_def)
  then show ?case
    using Cons by (subst split_from.simps) simp
qed

lemma is_space_not_lt: "is_space c \<Longrightarrow> c \<noteq> CHR ''<''"
  by (auto simp: is_space_def)

lemma strip_all_space: "\<forall>c\<in>set s. is_space c \<Longrightarrow> strip s = []"
proof -
  assume "\<forall>c\<in>set s. is_space c"
  then have h: "dropWhile is_space s = []" by (induction s) auto
  show ?thesis unfolding strip_def h by simp
qed

text \<open>
  C2. On the text \<open><!--:en-->Hello<!--:--><!--:fr-->Bonjour<!--:-->\<close> the
  splitter returns the dictionary with \<open>en\<close> mapped to \<open>Hello\<close> and \<open>fr\<close>
  mapped to \<open>Bonjour\<close>, and on \<open>Shared text\<close>, which has no marker, the
  dictionary with the empty key mapped to \<open>Shared text\<close>.
\<close>

theorem qtranslate_examples:
  "separate_qtranslate_content ''<!--:en-->Hello<!--:--><!--:fr-->Bonjour<!--:-->''
     = [(''en'', ''Hello''), (''fr'', ''Bonjour'')]
   \<and> separate_qtranslate_content ''Shared text'' = [([], ''Shared text'')]"
  by code_simp

text \<open>
  C10. For a text that is empty or made of whitespace only, the splitter
  returns the empty dictionary: the only chunk is skipped before any bucket
  is touched, so there is no entry for the default language either.
\<close>

theorem qtranslate_blank_text_gives_empty_mapping:
  assumes "\<forall>c\<in>set text. is_space c"
  shows "separate_qtranslate_content text = []"
proof -
  have "\<forall>c\<in>set text. c \<noteq> hd qt_start"
    using assms by (auto simp: qt_start_def dest: is_space_not_lt)
  then have chunks: "split text qt_start = [text]"
    by (simp add: split_def split_from_no_sep)
  have "strip text = []"
    using assms by (rule strip_all_space)
  then have "qt_chunk text ([], []) = ([], [])"
    by (simp add: qt_chunk_def)
  then show ?thesis
    by (simp add: separate_qtranslate_content_def chunks)
qed

theorem qtranslate_blank_text_witness:
  "is_space (CHR '' '') \<and> is_space nl
    \<and> separate_qtranslate_content [CHR '' '', nl, CHR '' ''] = []
    \<and> separate_qtranslate_content [] = []"
  using qtranslate_blank_text_gives_empty_mapping [of "[CHR '' '', nl, CHR '' '']"]
        qtranslate_blank_text_gives_empty_mapping [of "[]"]
  by (simp add: is_space_def nl_def)

section \<open>The text transformers: results\<close>

text \<open>
  C4. \<open>transform_content\<close> on the format \<open>wp\<close> returns the content passed
  through \<open>transform_code\<close>, \<open>transform_caption\<close> and
  \<open>transform_multiple_newlines\<close>, in this order, with the extension \<open>md\<close>;
  on \<open>markdown\<close> the content as it is with \<open>md\<close>; on \<open>none\<close> the content as
  it is with \<open>html\<close>; on every other format no pair at all.
\<close>

theorem transform_content_dispatch:
  "transform_content sq c (Some ''wp'')
     = Some (transform_multiple_newlines sq (transform_caption (transform_code c)), ''md'')
   \<and> transform_content sq c (Some ''markdown'') = Some (c, ''md'')
   \<and> transform_content sq c (Some ''none'') = Some (c, ''html'')
   \<and> (fmt \<notin> {Some ''wp'', Some ''markdown'', Some ''none''}
        \<longrightarrow> transform_content sq c fmt = None)"
  by (simp add: transform_content_def)

theorem transform_content_dispatch_witness:
  "Some ''textile'' \<notin> {Some ''wp'', Some ''markdown'', Some ''none''}
   \<and> transform_content False ''[caption a]x[/caption]'' (Some ''textile'') = None
   \<and> transform_content False ''[caption a]x[/caption]'' (Some ''wp'') = Some (''x'', ''md'')"
proof -
  have t: "transform_multiple_newlines False
             (transform_caption (transform_code ''[caption a]x[/caption]'')) = ''x''"
    by code_simp
  show ?thesis
    using transform_content_dispatch [of False "''[caption a]x[/caption]''" "Some ''textile''"] t
    by simp
qed

text \<open>
  C3. The claim is that \<open>transform_code\<close> leaves no marker in its output. For
  a marker without language the replacement takes the whole match as the
  code, so the fence encloses the markers: \<open>[code]x &lt; y[/code]\<close> becomes a
  fenced block whose body is \<open>[code]x < y[/code]\<close>.
\<close>

theorem transform_code_keeps_markers_without_language:
  "transform_code ''[code]x &lt; y[/code]''
     = ''```'' @ [nl] @ ''[code]x < y[/code]'' @ [nl] @ ''```''"
  by code_simp

text \<open>
  C6. The claim is that \<open>transform_caption\<close> removes the two markers and
  leaves the text inside and outside them as it is. The pattern of the open
  marker is greedy, so it runs to the last closing bracket of the line: of two
  captions on one line only the content of the second is left.
\<close>

theorem transform_caption_two_on_a_line:
  "transform_caption ''[caption a]X[/caption] and [caption b]Y[/caption]'' = ''Y''"
  by code_simp

section \<open>Importing one post or page: results\<close>

text \<open>
  C5. The claim is that an element of the domain \<open>category\<close> adds its text to
  the list of categories. The loop appends the domain instead: for the category
  \<open>News\<close> the list of categories is \<open>['category']\<close>, while the set of all
  tags does get \<open>News\<close>.
\<close>

theorem collect_categories_appends_type:
  "collect_categories [\<lparr>cat_text = Some ''News'', cat_domain = Some ''category''\<rparr>] ({}, [], [])
     = ({Some ''News''}, [], [''category''])"
  by simp

text \<open>
  C1. The claim is that an item has an entry in the URL map exactly when
  \<open>import_item\<close> imports it. The entry is written before the content is
  transformed: for a post of a format without transform the function returns
  its failure value and writes no file, and the entry of the link stays in the
  map.
\<close>

theorem import_item_failed_transform_keeps_url:
  "(case import_item sample_config sample_env empty_state textile_post ''posts'' of
      Inl e \<Rightarrow> False
    | Inr (r, st) \<Rightarrow>
        r = None
        \<and> url_map st = [(''http://foo.com/2012/09/01/hello-world/'',
                          ''http://foo.com/posts/2012/09/01/hello-world.html'')]
        \<and> fs st = []
        \<and> log st = [Error_cannot_interpret ''posts/2012/09/01/hello-world'' [] (Some ''textile'')])"
  by code_simp

theorem import_item_failed_transform_keeps_url_witness:
  "\<exists>st. import_item sample_config sample_env empty_state textile_post ''posts'' = Inr (None, st)
        \<and> map_of (url_map st) ''http://foo.com/2012/09/01/hello-world/''
            = Some ''http://foo.com/posts/2012/09/01/hello-world.html''"
  using import_item_failed_transform_keeps_url
  by (auto split: sum.splits prod.splits)


lemma import_item_unfold:
  assumes link: "it_link it = Some link"
      and slug: "item_slug cfg env it link folder = Some (out_folder, slug)"
      and pd: "parse_post_date env (get_text_tag (it_title it) ''NO TITLE'') slug (wp_post_date it) st
                 = (dt, post_date, st0)"
      and stt: "status_tags (get_text_tag (wp_status it) ''publish'') = (tags0, d, pr)"
      and cc: "collect_categories (it_categories it) (all_tags (note_timezone env dt st0), tags0, [])
                 = (tagset, tags1, cats)"
  shows "import_item cfg env st it folder =
     (if get_text_tag (wp_status it) ''publish'' = ''trash''
      then Inr (None, logged (Warn_trashed (get_text_tag (it_title it) ''NO TITLE''))
                        (note_timezone env dt st0))
      else case find_post_format it of
             Inl e \<Rightarrow> Inl e
           | Inr post_format \<Rightarrow>
               Inr (write_item cfg env ((note_timezone env dt st0)\<lparr>all_tags := tagset\<rparr>) link
                      \<lparr>p_title = get_text_tag (it_title it) ''NO TITLE'', p_slug = slug,
                       p_out_folder = out_folder, p_post_date = post_date,
                       p_description = get_text_tag (it_description it) [],
                       p_status = get_text_tag (wp_status it) ''publish'',
                       p_excerpt = (if excerpt_encoded it = Some [] then None
                                    else excerpt_encoded it),
                       p_categories = cats, p_post_format = post_format\<rparr>
                      (get_text_tag (content_encoded it) [])
                      (if contains (get_text_tag (content_encoded it) []) ''$latex''
                       then tags1 @ [Some ''mathjax''] else tags1)
                      d pr))"
  unfolding import_item_def Let_def link slug option.case prod.case pd stt cc
  by (rule refl)




lemma note_timezone_epoch: "note_timezone env epoch st = st"
  by (simp add: note_timezone_def epoch_def)

lemma strftime_epoch: "strftime epoch = ''1970-01-01 00:00:00''"
  by (simp add: strftime_def epoch_def digit_char_def)

lemma parse_post_date_malformed:
  "to_datetime env d = None \<Longrightarrow>
     parse_post_date env title slug d st
       = (epoch, Some ''1970-01-01 00:00:00'', logged (Error_malformed_date d title slug) st)"
  by (simp add: parse_post_date_def Let_def strftime_epoch)

lemma parse_post_date_epoch:
  "parse_post_date (env\<lparr>to_datetime := (\<lambda>d. Some epoch)\<rparr>) title slug d st = (epoch, d, st)"
  by (simp add: parse_post_date_def)

lemma item_slug_other_date:
  "item_slug cfg (env\<lparr>to_datetime := f\<rparr>) (it\<lparr>wp_post_date := d\<rparr>) link folder
     = item_slug cfg env it link folder"
  by (simp add: item_slug_def Let_def)

lemma find_post_format_other_date:
  "find_post_format (it\<lparr>wp_post_date := d\<rparr>) = find_post_format it"
  by (simp add: find_post_format_def)

lemma write_translations_other_parser:
  "write_translations cfg (env\<lparr>to_datetime := f\<rparr>) p trs tags st
     = write_translations cfg env p trs tags st"
proof (induction trs arbitrary: tags st)
  case Nil
  show ?case by simp
next
  case (Cons tr trs)
  obtain lang content where tr: "tr = (lang, content)" by (cases tr)
  show ?case
    by (simp add: tr Let_def Cons.IH split: option.split prod.split)
qed

lemma write_item_other_parser:
  "write_item cfg (env\<lparr>to_datetime := f\<rparr>) st link p content tags d pr
     = write_item cfg env st link p content tags d pr"
  unfolding write_item_def Let_def write_translations_other_parser by (rule refl)

text \<open>
  C7. The item is one that reaches the date: it has a link, and a slug was
  found for it. When its publish date does not parse (\<open>utils.to_datetime\<close>
  raises ValueError), \<open>import_item\<close> does exactly what it does for the same
  item dated \<open>1970-01-01 00:00:00\<close> with a parser that returns the epoch,
  started with one more error in the log: the same result, the same files,
  the same tables. So the malformed date raises nothing and changes nothing
  else. When the item is one that is written (it is not trashed, drafts and
  private posts are not excluded, the translations are not separated, it has
  content or empty items are imported, its post format has a value and a
  transform), the function returns the folder and the slug of the item, the
  log is the old one followed by the error, the files are the old ones
  followed by the metadata file of the item, whose date is
  \<open>1970-01-01 00:00:00\<close>, and by its content file, and the link of the item
  is in the URL map.
\<close>

theorem malformed_date_gives_epoch:
  assumes bad: "to_datetime env (wp_post_date it) = None"
      and link: "it_link it = Some link"
      and slug: "item_slug cfg env it link folder = Some (out_folder, slug)"
  shows "import_item cfg env st it folder
           = import_item cfg (env\<lparr>to_datetime := (\<lambda>d. Some epoch)\<rparr>)
               (logged (Error_malformed_date (wp_post_date it)
                          (get_text_tag (it_title it) ''NO TITLE'') slug) st)
               (it\<lparr>wp_post_date := Some ''1970-01-01 00:00:00''\<rparr>) folder
       \<and> (get_text_tag (wp_status it) ''publish'' \<noteq> ''trash''
          \<and> \<not> exclude_drafts cfg \<and> \<not> exclude_privates cfg \<and> \<not> separate_qtranslate cfg
          \<and> (strip (get_text_tag (content_encoded it) []) \<noteq> [] \<or> import_empty_items cfg)
          \<and> find_post_format it = Inr post_format
          \<and> transform_content (squash_newlines cfg) (get_text_tag (content_encoded it) [])
                post_format = Some (content, extension)
          \<longrightarrow> (\<exists>st' tags other_meta.
                 import_item cfg env st it folder = Inr (Some (out_folder, slug), st')
               \<and> log st' = log st @ [Error_malformed_date (wp_post_date it)
                                       (get_text_tag (it_title it) ''NO TITLE'') slug]
               \<and> fs st' = fs st @
                    [Write_metadata (path_join [output_folder cfg, out_folder, slug @ ''.meta''])
                       (get_text_tag (it_title it) ''NO TITLE'') slug
                       (Some ''1970-01-01 00:00:00'')
                       (get_text_tag (it_description it) []) tags other_meta,
                     Write_content
                       (path_join [output_folder cfg, out_folder, slug @ ''.'' @ extension])
                       content]
               \<and> url_map st' =
                    dict_set (url_map st) link
                      (replace (site_url cfg @ rstrip_chars {CHR ''/''} out_folder
                                  @ ''/'' @ slug @ ''.html'') os_sep ''/'')))"
proof -
  let ?title = "get_text_tag (it_title it) ''NO TITLE''"
  let ?err = "Error_malformed_date (wp_post_date it) ?title slug"
  let ?st0 = "logged ?err st"
  let ?env = "env\<lparr>to_datetime := (\<lambda>d. Some epoch)\<rparr>"
  let ?it = "it\<lparr>wp_post_date := Some ''1970-01-01 00:00:00''\<rparr>"
  let ?status = "get_text_tag (wp_status it) ''publish''"
  let ?content = "get_text_tag (content_encoded it) []"
  have pd: "parse_post_date env ?title slug (wp_post_date it) st
              = (epoch, Some ''1970-01-01 00:00:00'', ?st0)"
    using bad by (rule parse_post_date_malformed)
  obtain tags0 d pr where stt: "status_tags ?status = (tags0, d, pr)"
    by (metis prod_cases3)
  obtain tagset tags1 cats where
    cc: "collect_categories (it_categories it) (all_tags (note_timezone env epoch ?st0), tags0, [])
           = (tagset, tags1, cats)"
    by (metis prod_cases3)
  note eq1 = import_item_unfold [OF link slug pd stt cc]
  have link': "it_link ?it = Some link" using link by simp
  have slug': "item_slug cfg ?env ?it link folder = Some (out_folder, slug)"
    using slug by (simp only: item_slug_other_date)
  have pd': "parse_post_date ?env (get_text_tag (it_title ?it) ''NO TITLE'') slug
               (wp_post_date ?it) ?st0 = (epoch, Some ''1970-01-01 00:00:00'', ?st0)"
    by (simp add: parse_post_date_epoch)
  have stt': "status_tags (get_text_tag (wp_status ?it) ''publish'') = (tags0, d, pr)"
    using stt by simp
  have cc': "collect_categories (it_categories ?it)
               (all_tags (note_timezone ?env epoch ?st0), tags0, []) = (tagset, tags1, cats)"
    using cc by (simp add: note_timezone_epoch)
  note eq2 = import_item_unfold [OF link' slug' pd' stt' cc']
  have same: "import_item cfg env st it folder = import_item cfg ?env ?st0 ?it folder"
    unfolding eq1 eq2
    by (simp add: find_post_format_other_date write_item_other_parser note_timezone_epoch
             cong: sum.case_cong)
  have written: "\<exists>st' tags other_meta.
                 import_item cfg env st it folder = Inr (Some (out_folder, slug), st')
               \<and> log st' = log st @ [?err]
               \<and> fs st' = fs st @
                    [Write_metadata (path_join [output_folder cfg, out_folder, slug @ ''.meta''])
                       ?title slug (Some ''1970-01-01 00:00:00'')
                       (get_text_tag (it_description it) []) tags other_meta,
                     Write_content
                       (path_join [output_folder cfg, out_folder, slug @ ''.'' @ extension])
                       content]
               \<and> url_map st' =
                    dict_set (url_map st) link
                      (replace (site_url cfg @ rstrip_chars {CHR ''/''} out_folder
                                  @ ''/'' @ slug @ ''.html'') os_sep ''/'')"
    if h: "?status \<noteq> ''trash''
          \<and> \<not> exclude_drafts cfg \<and> \<not> exclude_privates cfg \<and> \<not> separate_qtranslate cfg
          \<and> (strip ?content \<noteq> [] \<or> import_empty_items cfg)
          \<and> find_post_format it = Inr post_format
          \<and> transform_content (squash_newlines cfg) ?content post_format
               = Some (content, extension)"
  proof -
    define p where "p = \<lparr>p_title = ?title, p_slug = slug,
                       p_out_folder = out_folder, p_post_date = Some ''1970-01-01 00:00:00'',
                       p_description = get_text_tag (it_description it) [],
                       p_status = ?status,
                       p_excerpt = (if excerpt_encoded it = Some [] then None
                                    else excerpt_encoded it),
                       p_categories = cats, p_post_format = post_format\<rparr>"
    define tags where "tags = (if contains ?content ''$latex''
                               then tags1 @ [Some ''mathjax''] else tags1)"
    define st1 where "st1 = ?st0\<lparr>all_tags := tagset\<rparr>"
    obtain tags' other_meta where
      cm: "create_metadata (p_status p) (p_excerpt p) tags (p_categories p) = (tags', other_meta)"
      by (metis prod.exhaust)
    have run: "import_item cfg env st it folder
                 = Inr (write_item cfg env st1 link p ?content tags d pr)"
      unfolding eq1 p_def tags_def st1_def using h
      by (simp add: note_timezone_epoch)
    have tc: "transform_content (squash_newlines cfg) ?content (p_post_format p)
                = Some (content, extension)"
      using h by (simp add: p_def)
    let ?st' = "st1\<lparr>url_map :=
                     dict_set (url_map st1) link
                       (replace (site_url cfg @ rstrip_chars {CHR ''/''} out_folder
                                   @ ''/'' @ slug @ ''.html'') os_sep ''/''),
                   fs := fs st1 @
                    [Write_metadata (path_join [output_folder cfg, out_folder, slug @ ''.meta''])
                       ?title slug (Some ''1970-01-01 00:00:00'')
                       (get_text_tag (it_description it) []) tags' other_meta,
                     Write_content
                       (path_join [output_folder cfg, out_folder, slug @ ''.'' @ extension])
                       content]\<rparr>"
    have w: "write_item cfg env st1 link p ?content tags d pr = (Some (out_folder, slug), ?st')"
      using h tc cm
      by (simp add: write_item_def Let_def emit_def p_def)
    have "log ?st' = log st @ [?err]" "fs ?st' = fs st @
                    [Write_metadata (path_join [output_folder cfg, out_folder, slug @ ''.meta''])
                       ?title slug (Some ''1970-01-01 00:00:00'')
                       (get_text_tag (it_description it) []) tags' other_meta,
                     Write_content
                       (path_join [output_folder cfg, out_folder, slug @ ''.'' @ extension])
                       content]"
      "url_map ?st' = dict_set (url_map st) link
                      (replace (site_url cfg @ rstrip_chars {CHR ''/''} out_folder
                                  @ ''/'' @ slug @ ''.html'') os_sep ''/'')"
      by (simp_all add: st1_def logged_def)
    with run w show ?thesis by (intro exI [of _ ?st'] exI [of _ tags'] exI [of _ other_meta]) simp
  qed
  from same written show ?thesis by blast
qed

theorem malformed_date_gives_epoch_witness:
  "to_datetime sample_env (wp_post_date undated_post) = None
   \<and> it_link undated_post = Some ''http://foo.com/2012/09/01/hello-world/''
   \<and> item_slug sample_config sample_env undated_post ''http://foo.com/2012/09/01/hello-world/''
        ''posts'' = Some (''posts/2012/09/01'', ''hello-world'')
   \<and> (\<exists>st' tags other_meta.
          import_item sample_config sample_env empty_state undated_post ''posts''
               = Inr (Some (''posts/2012/09/01'', ''hello-world''), st')
          \<and> log st' = [Error_malformed_date (Some ''not-a-date'') ''Hello'' ''hello-world'']
          \<and> fs st' = [Write_metadata ''new_site/posts/2012/09/01/hello-world.meta'' ''Hello''
                        ''hello-world'' (Some ''1970-01-01 00:00:00'') [] tags other_meta,
                      Write_content ''new_site/posts/2012/09/01/hello-world.md'' ''Some text''])"
proof -
  have h1: "to_datetime sample_env (wp_post_date undated_post) = None"
    by code_simp
  have h2: "it_link undated_post = Some ''http://foo.com/2012/09/01/hello-world/''"
    by code_simp
  have h3: "item_slug sample_config sample_env undated_post
              ''http://foo.com/2012/09/01/hello-world/'' ''posts''
            = Some (''posts/2012/09/01'', ''hello-world'')"
    by code_simp
  have c: "get_text_tag (content_encoded undated_post) [] = ''Some text''"
    and t: "get_text_tag (it_title undated_post) ''NO TITLE'' = ''Hello''"
    and d: "get_text_tag (it_description undated_post) [] = []"
    and s: "get_text_tag (wp_status undated_post) ''publish'' = ''publish''"
    and pd: "wp_post_date undated_post = Some ''not-a-date''"
    by code_simp+
  have f: "find_post_format undated_post = Inr (Some ''wp'')"
    by code_simp
  have tc: "transform_content (squash_newlines sample_config) ''Some text'' (Some ''wp'')
              = Some (''Some text'', ''md'')"
    by code_simp
  have st: "strip ''Some text'' \<noteq> []"
    by code_simp
  have o: "\<not> exclude_drafts sample_config \<and> \<not> exclude_privates sample_config
           \<and> \<not> separate_qtranslate sample_config"
    by (simp add: sample_config_def)
  have p1: "path_join [output_folder sample_config, ''posts/2012/09/01'', ''hello-world'' @ ''.meta'']
              = ''new_site/posts/2012/09/01/hello-world.meta''"
    and p2: "path_join [output_folder sample_config, ''posts/2012/09/01'',
                        ''hello-world'' @ ''.'' @ ''md'']
              = ''new_site/posts/2012/09/01/hello-world.md''"
    by code_simp+
  have e: "log empty_state = []" "fs empty_state = []"
    by (simp_all add: empty_state_def)
  have "\<exists>st' tags other_meta.
          import_item sample_config sample_env empty_state undated_post ''posts''
               = Inr (Some (''posts/2012/09/01'', ''hello-world''), st')
          \<and> log st' = [Error_malformed_date (Some ''not-a-date'') ''Hello'' ''hello-world'']
          \<and> fs st' = [Write_metadata ''new_site/posts/2012/09/01/hello-world.meta'' ''Hello''
                        ''hello-world'' (Some ''1970-01-01 00:00:00'') [] tags other_meta,
                      Write_content ''new_site/posts/2012/09/01/hello-world.md'' ''Some text'']"
    using malformed_date_gives_epoch [OF h1 h2 h3, of empty_state "Some ''wp''" "''Some text''"
            "''md''", unfolded c t d s pd p1 p2 e append_Nil] f tc st o
    by blast
  with h1 h2 h3 show ?thesis by blast
qed

section \<open>Attachments and the run over all items: results\<close>

lemma growsI:
  assumes "fs b = fs a @ f" and "log b = log a @ l" and "sidecars f = []"
      and "fst ` set (links a) \<subseteq> fst ` set (links b)"
      and "fst ` set (attachments a) \<subseteq> fst ` set (attachments b)"
  shows "grows a b"
  using assms by (simp add: grows_def new_fs_def)








lemma grows_emit: "\<not> is_sidecar e \<Longrightarrow> grows st (emit e st)"
  by (rule growsI [of _ _ "[e]" "[]"]) (simp_all add: emit_def sidecars_def)






















































end
